theory Spec2Isabelle
  imports Complex_Main
begin

section \<open>Values of the JavaScript program\<close>

text \<open>
  The application (src/src/App.js) is a set of React components over a Firestore document
  store. Identifiers (document ids, account ids, dates and times of day as typed into the
  forms) are JavaScript strings; the empty string is the only falsy one.

  A numeric form field holds what the browser hands to the \<open>onChange\<close> handler of an
  \<open>input type="number"\<close> or of a \<open>select\<close>, or the number the state was initialised
  with. JavaScript treats the three differently when it tests truthiness, so the model keeps
  them apart:
  \<^item> \<open>Blank\<close> is the empty string (nothing typed),
  \<^item> \<open>Text q\<close> is a non-empty string spelling the number \<open>q\<close>,
  \<^item> \<open>Num q\<close> is the JavaScript number \<open>q\<close>.
  Numbers are the finite values a form can produce, modelled as rationals.
\<close>

datatype field = Blank | Text rat | Num rat

text \<open>\<open>!v\<close> is false exactly on the truthy values: a non-empty string, a non-zero number.\<close>

fun truthy :: "field \<Rightarrow> bool" where
  "truthy Blank = False"
| "truthy (Text q) = True"
| "truthy (Num q) = (q \<noteq> 0)"

text \<open>\<open>Number(v)\<close>, also the conversion \<open>v <= 0\<close> applies to a string: \<open>Number("")\<close> is 0.\<close>

fun Number :: "field \<Rightarrow> rat" where
  "Number Blank = 0"
| "Number (Text q) = q"
| "Number (Num q) = q"

text \<open>\<open>parseFloat(v)\<close>; \<open>None\<close> is NaN, the value of \<open>parseFloat("")\<close>.\<close>

fun parseFloat :: "field \<Rightarrow> rat option" where
  "parseFloat Blank = None"
| "parseFloat (Text q) = Some q"
| "parseFloat (Num q) = Some q"

text \<open>
  \<open>new Date()\<close>, read through the three getters the program uses. \<open>getMonth\<close> is
  0-indexed, as in JavaScript.
\<close>

record jsDate =
  getFullYear :: int
  getMonth :: nat
  getDate :: nat

section \<open>Documents and collections\<close>

text \<open>
  A Firestore collection is read as \<open>snapshot.docs.map((doc) => ({id: doc.id, ...doc.data()}))\<close>:
  a list of documents, each an id with its data. The audit fields every document carries
  (\<open>createdAt\<close>, \<open>gymId\<close>, \<open>userId\<close>) are never read by the program and are left out,
  except the payment's server timestamp \<open>date\<close>.
\<close>

type_synonym 'a collection = "(string \<times> 'a) list"

record shift =
  date :: string
  time :: string
  capacity :: rat
  modalityId :: string
  bookedClients :: "string list"

record payment =
  clientId :: string
  amount :: rat
  paymentDate :: nat         \<comment> \<open>the field \<open>date: serverTimestamp()\<close>\<close>
  paymentMonth :: rat
  paymentYear :: rat

record client =
  name :: string
  phone :: string
  email :: string
  associatedUserUid :: "string option"      \<comment> \<open>\<open>null\<close> or an account id\<close>
  currentModalityId :: "string option"

record modality =
  modalityName :: string     \<comment> \<open>the field \<open>name\<close>\<close>
  price :: rat
  description :: string

text \<open>A document of the collection of accounts, \<open>artifacts/{appId}/users\<close>.\<close>

record userDoc =
  userEmail :: string        \<comment> \<open>the field \<open>email\<close>\<close>
  role :: string

text \<open>The collections of one administrator, under \<open>artifacts/{appId}/users/{userId}/\<close>.\<close>

record db =
  db_shifts :: "shift collection"
  db_clients :: "client collection"
  db_payments :: "payment collection"
  db_modalities :: "modality collection"

text \<open>
  The Firestore calls. \<open>addDoc\<close> stores the data under the id the store assigns,
  which the model takes as an argument. \<open>updateDoc\<close> overwrites the named fields of the
  document with the given id and is rejected when there is no such document; \<open>deleteDoc\<close>
  removes it and accepts an absent one. A query \<open>getDocs(query(col, where(...)))\<close> is a
  \<open>filter\<close> of the collection. Failures of the network are outside the model.
\<close>

definition addDoc :: "string \<Rightarrow> 'a \<Rightarrow> 'a collection \<Rightarrow> 'a collection" where
  "addDoc newId d col = col @ [(newId, d)]"

definition updateDoc :: "string \<Rightarrow> ('a \<Rightarrow> 'a) \<Rightarrow> 'a collection \<Rightarrow> 'a collection option" where
  "updateDoc k f col =
     (if k \<in> fst ` set col
      then Some (map (\<lambda>(k', d). if k' = k then (k', f d) else (k', d)) col)
      else None)"

definition deleteDoc :: "string \<Rightarrow> 'a collection \<Rightarrow> 'a collection" where
  "deleteDoc k col = filter (\<lambda>(k', _). k' \<noteq> k) col"

text \<open>
  What a handler leaves behind: the message it shows and the store. The program reports
  through \<open>showMessage(text, "error")\<close> and \<open>showMessage(text, "success")\<close>; the error
  texts are classified by the kind of rejection they announce, and the message of a
  \<open>catch\<close> block is \<open>StoreError\<close>. A handler that returns without a word gives
  \<open>NoMsg\<close>.
\<close>

datatype error =
    ValidationError
  | AlreadyBooked
  | CapacityExceeded
  | ReferentialConflict
  | NotAssociated
  | StoreError

datatype message = ErrorMsg error | SuccessMsg | NoMsg

section \<open>Payment status\<close>

text \<open>
  The status object \<open>{status, color, bgColor}\<close> is determined by its \<open>status\<close> string:
  "Al dia" (paid), "Vencido" (overdue), "Pendiente" (pending).
\<close>

datatype paymentStatus = Al_dia | Vencido | Pendiente

text \<open>
  \<open>getPaymentStatus\<close>, App.js lines 592-629 (Dashboard) and, word for word the same,
  lines 1487-1524 (Clients). \<open>payments\<close> is the component's snapshot of the payments
  collection and \<open>today\<close> is \<open>new Date()\<close>.
\<close>

definition hasPaidThisMonth :: "payment collection \<Rightarrow> jsDate \<Rightarrow> string \<Rightarrow> bool" where
  "hasPaidThisMonth payments today cid =
     (let currentMonth = getMonth today + 1;
          currentYear = getFullYear today
      in list_ex (\<lambda>(_, p). clientId p = cid
                          \<and> paymentMonth p = of_nat currentMonth
                          \<and> paymentYear p = of_int currentYear) payments)"

definition getPaymentStatus :: "payment collection \<Rightarrow> jsDate \<Rightarrow> string \<Rightarrow> paymentStatus" where
  "getPaymentStatus payments today cid =
     (let dayOfMonth = getDate today
      in if hasPaidThisMonth payments today cid then Al_dia
         else if dayOfMonth > 10 then Vencido
         else Pendiente)"

text \<open>The payments of the snapshot that the status derivation looks at.\<close>

definition relevant :: "jsDate \<Rightarrow> string \<Rightarrow> string \<times> payment \<Rightarrow> bool" where
  "relevant today cid d =
     (clientId (snd d) = cid
      \<and> paymentMonth (snd d) = of_nat (getMonth today + 1)
      \<and> paymentYear (snd d) = of_int (getFullYear today))"

section \<open>Shifts (component Shifts)\<close>

text \<open>
  \<open>handleAddShift\<close>, lines 835-876. The form state is \<open>newShiftDate\<close>,
  \<open>newShiftTime\<close>, \<open>newShiftCapacity\<close> and \<open>newShiftModality\<close>; the guard is
  \<open>!newShiftDate || !newShiftTime || newShiftCapacity <= 0 || !newShiftModality\<close> with the
  message "Por favor, completa todos los campos para el turno, incluyendo la modalidad."
\<close>

definition handleAddShift ::
  "string \<Rightarrow> string \<Rightarrow> field \<Rightarrow> string \<Rightarrow> string \<Rightarrow> db \<Rightarrow> message \<times> db" where
  "handleAddShift newShiftDate newShiftTime newShiftCapacity newShiftModality newId db =
     (if newShiftDate = '''' \<or> newShiftTime = '''' \<or> Number newShiftCapacity \<le> 0
         \<or> newShiftModality = ''''
      then (ErrorMsg ValidationError, db)
      else (SuccessMsg,
            db\<lparr>db_shifts :=
                 addDoc newId
                   \<lparr>date = newShiftDate, time = newShiftTime,
                    capacity = Number newShiftCapacity,
                    modalityId = newShiftModality, bookedClients = []\<rparr>
                   (db_shifts db)\<rparr>))"

text \<open>
  \<open>handleUpdateShift\<close>, lines 889-930. \<open>currentShift\<close> is the shift chosen for editing
  (\<open>null\<close> when there is none); the write names the four edited fields only.
\<close>

definition handleUpdateShift ::
  "(string \<times> shift) option \<Rightarrow> string \<Rightarrow> string \<Rightarrow> field \<Rightarrow> string \<Rightarrow> db \<Rightarrow> message \<times> db" where
  "handleUpdateShift currentShift newShiftDate newShiftTime newShiftCapacity newShiftModality db =
     (case currentShift of
        None \<Rightarrow> (ErrorMsg ValidationError, db)
      | Some cur \<Rightarrow>
          if newShiftDate = '''' \<or> newShiftTime = '''' \<or> Number newShiftCapacity \<le> 0
             \<or> newShiftModality = ''''
          then (ErrorMsg ValidationError, db)
          else (case updateDoc (fst cur)
                       (\<lambda>d. d\<lparr>date := newShiftDate, time := newShiftTime,
                              capacity := Number newShiftCapacity,
                              modalityId := newShiftModality\<rparr>)
                       (db_shifts db) of
                  None \<Rightarrow> (ErrorMsg StoreError, db)
                | Some col \<Rightarrow> (SuccessMsg, db\<lparr>db_shifts := col\<rparr>)))"

text \<open>\<open>confirmDeleteShift\<close>, lines 939-954.\<close>

definition confirmDeleteShift :: "string \<Rightarrow> db \<Rightarrow> message \<times> db" where
  "confirmDeleteShift shiftToDelete db =
     (SuccessMsg, db\<lparr>db_shifts := deleteDoc shiftToDelete (db_shifts db)\<rparr>)"

text \<open>
  \<open>handleBookClient\<close>, lines 957-996. \<open>shifts\<close> is the component's snapshot of the
  collection, \<open>selectedClientForBooking\<close> the value of the client selector (the empty
  string when none is chosen). \<open>shift.bookedClients || []\<close> is the array itself: every
  shift is created with the field, and an array is truthy. The messages are
  "Por favor, selecciona un cliente para reservar.", "Este cliente ya esta reservado para
  este turno." and "El turno esta lleno. No se pueden anadir mas clientes."
\<close>

definition handleBookClient :: "shift collection \<Rightarrow> string \<Rightarrow> string \<Rightarrow> db \<Rightarrow> message \<times> db" where
  "handleBookClient shifts selectedClientForBooking shiftId db =
     (if selectedClientForBooking = '''' then (ErrorMsg ValidationError, db)
      else
        case find (\<lambda>s. fst s = shiftId) shifts of
          None \<Rightarrow> (NoMsg, db)
        | Some s \<Rightarrow>
            let currentBookedClients = bookedClients (snd s) in
            if selectedClientForBooking \<in> set currentBookedClients
            then (ErrorMsg AlreadyBooked, db)
            else if of_nat (length currentBookedClients) \<ge> capacity (snd s)
            then (ErrorMsg CapacityExceeded, db)
            else (case updateDoc shiftId
                         (\<lambda>d. d\<lparr>bookedClients := currentBookedClients @ [selectedClientForBooking]\<rparr>)
                         (db_shifts db) of
                    None \<Rightarrow> (ErrorMsg StoreError, db)
                  | Some col \<Rightarrow> (SuccessMsg, db\<lparr>db_shifts := col\<rparr>)))"

text \<open>\<open>handleRemoveClientFromShift\<close>, lines 999-1024.\<close>

definition handleRemoveClientFromShift ::
  "shift collection \<Rightarrow> string \<Rightarrow> string \<Rightarrow> db \<Rightarrow> message \<times> db" where
  "handleRemoveClientFromShift shifts shiftId clientIdToRemove db =
     (case find (\<lambda>s. fst s = shiftId) shifts of
        None \<Rightarrow> (NoMsg, db)
      | Some s \<Rightarrow>
          let updatedBookedClients = filter (\<lambda>i. i \<noteq> clientIdToRemove) (bookedClients (snd s)) in
          case updateDoc shiftId (\<lambda>d. d\<lparr>bookedClients := updatedBookedClients\<rparr>) (db_shifts db) of
            None \<Rightarrow> (ErrorMsg StoreError, db)
          | Some col \<Rightarrow> (SuccessMsg, db\<lparr>db_shifts := col\<rparr>))"

section \<open>Shifts (component ClientDashboard)\<close>

text \<open>
  \<open>handleBookShift\<close>, lines 3028-3060, and \<open>handleUnbookShift\<close>, lines 3062-3086. The
  signed-in account books itself: the entry it adds and removes is its account id
  \<open>userId\<close>. \<open>shifts\<close> is this component's snapshot (the future shifts of the
  administrator \<open>adminUserId\<close>, whose store is \<open>db\<close>).
\<close>

definition handleBookShift :: "shift collection \<Rightarrow> string \<Rightarrow> string \<Rightarrow> db \<Rightarrow> message \<times> db" where
  "handleBookShift shifts userId shiftId db =
     (case find (\<lambda>s. fst s = shiftId) shifts of
        None \<Rightarrow> (NoMsg, db)
      | Some s \<Rightarrow>
          let currentBookedClients = bookedClients (snd s) in
          if userId \<in> set currentBookedClients
          then (ErrorMsg AlreadyBooked, db)
          else if of_nat (length currentBookedClients) \<ge> capacity (snd s)
          then (ErrorMsg CapacityExceeded, db)
          else (case updateDoc shiftId
                       (\<lambda>d. d\<lparr>bookedClients := currentBookedClients @ [userId]\<rparr>)
                       (db_shifts db) of
                  None \<Rightarrow> (ErrorMsg StoreError, db)
                | Some col \<Rightarrow> (SuccessMsg, db\<lparr>db_shifts := col\<rparr>)))"

definition handleUnbookShift :: "shift collection \<Rightarrow> string \<Rightarrow> string \<Rightarrow> db \<Rightarrow> message \<times> db" where
  "handleUnbookShift shifts userId shiftId db =
     (case find (\<lambda>s. fst s = shiftId) shifts of
        None \<Rightarrow> (NoMsg, db)
      | Some s \<Rightarrow>
          let updatedBookedClients = filter (\<lambda>i. i \<noteq> userId) (bookedClients (snd s)) in
          case updateDoc shiftId (\<lambda>d. d\<lparr>bookedClients := updatedBookedClients\<rparr>) (db_shifts db) of
            None \<Rightarrow> (ErrorMsg StoreError, db)
          | Some col \<Rightarrow> (SuccessMsg, db\<lparr>db_shifts := col\<rparr>))"

section \<open>Clients, payments and modalities\<close>

text \<open>
  \<open>confirmDeleteClient\<close>, lines 1611-1662: the client document is deleted, then every
  payment found by the query \<open>where("clientId", "==", clientToDelete)\<close>, then every shift
  found by \<open>where("bookedClients", "array-contains", clientToDelete)\<close> is rewritten without
  the id. The two \<open>forEach\<close> loops start one write per document and do not wait for it;
  the writes go to different documents, so the store they leave when all have completed is
  the one a loop in sequence leaves. \<open>unbookStep\<close> is the body of the second loop for
  one document of its query; a write it issues that is rejected is lost without a message.
\<close>

definition unbookStep :: "string \<Rightarrow> db \<Rightarrow> string \<times> shift \<Rightarrow> db" where
  "unbookStep clientToDelete d shiftDoc =
     (let shiftData = snd shiftDoc;
          updatedBookedClients = filter (\<lambda>i. i \<noteq> clientToDelete) (bookedClients shiftData)
      in case updateDoc (fst shiftDoc)
                (\<lambda>x. x\<lparr>bookedClients := updatedBookedClients\<rparr>) (db_shifts d) of
           None \<Rightarrow> d
         | Some col \<Rightarrow> d\<lparr>db_shifts := col\<rparr>)"

definition confirmDeleteClient :: "string \<Rightarrow> db \<Rightarrow> message \<times> db" where
  "confirmDeleteClient clientToDelete db =
     (let db1 = db\<lparr>db_clients := deleteDoc clientToDelete (db_clients db)\<rparr>;
          paymentsSnapshot = filter (\<lambda>(_, p). clientId p = clientToDelete) (db_payments db1);
          db2 = foldl (\<lambda>d paymentDoc.
                         d\<lparr>db_payments := deleteDoc (fst paymentDoc) (db_payments d)\<rparr>)
                      db1 paymentsSnapshot;
          shiftsSnapshot = filter (\<lambda>(_, s). clientToDelete \<in> set (bookedClients s)) (db_shifts db2)
      in (SuccessMsg, foldl (unbookStep clientToDelete) db2 shiftsSnapshot))"

text \<open>
  \<open>handleAddPayment\<close>, lines 2056-2102. The first guard is
  \<open>!newPaymentClientId || !newPaymentAmount || isNaN(parseFloat(newPaymentAmount)) ||
  parseFloat(newPaymentAmount) <= 0\<close>, the second \<open>!newPaymentMonth || !newPaymentYear\<close>;
  \<open>now\<close> is the value \<open>serverTimestamp()\<close> takes.
\<close>

definition handleAddPayment ::
  "string \<Rightarrow> field \<Rightarrow> field \<Rightarrow> field \<Rightarrow> nat \<Rightarrow> string \<Rightarrow> db \<Rightarrow> message \<times> db" where
  "handleAddPayment newPaymentClientId newPaymentAmount newPaymentMonth newPaymentYear now newId db =
     (if newPaymentClientId = '''' \<or> \<not> truthy newPaymentAmount
      then (ErrorMsg ValidationError, db)
      else
        case parseFloat newPaymentAmount of
          None \<Rightarrow> (ErrorMsg ValidationError, db)
        | Some a \<Rightarrow>
            if a \<le> 0 then (ErrorMsg ValidationError, db)
            else if \<not> truthy newPaymentMonth \<or> \<not> truthy newPaymentYear
            then (ErrorMsg ValidationError, db)
            else (SuccessMsg,
                  db\<lparr>db_payments :=
                       addDoc newId
                         \<lparr>clientId = newPaymentClientId, amount = a, paymentDate = now,
                          paymentMonth = Number newPaymentMonth,
                          paymentYear = Number newPaymentYear\<rparr>
                         (db_payments db)\<rparr>))"

text \<open>
  The months the payment form can hold. The state \<open>newPaymentMonth\<close> starts as, and is
  reset to, \<open>new Date().getMonth() + 1\<close> (lines 1985 and 2096); the only other write is
  the \<open>onChange\<close> of the month selector (lines 2279-2290), whose options are
  \<open>monthNames.map((name, index) => <option value={index + 1}>)\<close> over the twelve names
  of lines 2131-2144.
\<close>

definition monthNames :: "string list" where
  "monthNames = [''Enero'', ''Febrero'', ''Marzo'', ''Abril'', ''Mayo'', ''Junio'', ''Julio'',
                 ''Agosto'', ''Septiembre'', ''Octubre'', ''Noviembre'', ''Diciembre'']"

definition monthOptions :: "field list" where
  "monthOptions = map (\<lambda>index. Text (of_nat (index + 1))) [0..<length monthNames]"

definition initialMonth :: "jsDate \<Rightarrow> field" where
  "initialMonth today = Num (of_nat (getMonth today + 1))"

definition formMonth :: "jsDate \<Rightarrow> field \<Rightarrow> bool" where
  "formMonth today month = (month = initialMonth today \<or> month \<in> set monthOptions)"

text \<open>
  \<open>confirmDeleteModality\<close>, lines 2498-2533; the message of the guard is "No se puede
  eliminar la modalidad porque hay turnos asociados."
\<close>

definition confirmDeleteModality :: "string \<Rightarrow> db \<Rightarrow> message \<times> db" where
  "confirmDeleteModality modalityToDelete db =
     (let shiftsSnapshot = filter (\<lambda>(_, s). modalityId s = modalityToDelete) (db_shifts db)
      in if shiftsSnapshot \<noteq> [] then (ErrorMsg ReferentialConflict, db)
         else (SuccessMsg, db\<lparr>db_modalities := deleteDoc modalityToDelete (db_modalities db)\<rparr>))"

section \<open>Finding the client profile of an account\<close>

text \<open>
  \<open>fetchClientProfile\<close>, lines 2909-2948. \<open>users\<close> is the collection of accounts,
  \<open>clientsOf uid\<close> the client collection under the account \<open>uid\<close>, \<open>userId\<close> the
  signed-in account. The loop over \<open>allUsersSnapshot.docs\<close> is \<open>scanUsers\<close>; beside what
  it found, the administrator id and the first document of the query, it returns the ids
  of the administrators whose clients it queried, in the order of the queries.
\<close>

fun scanUsers ::
  "(string \<Rightarrow> client collection) \<Rightarrow> string \<Rightarrow> userDoc collection
     \<Rightarrow> (string \<times> string \<times> client) option \<times> string list" where
  "scanUsers clientsOf userId [] = (None, [])"
| "scanUsers clientsOf userId (userDoc # rest) =
     (if role (snd userDoc) = ''admin''
      then (let adminUid = fst userDoc;
                clientSnapshot = filter (\<lambda>(_, c). associatedUserUid c = Some userId) (clientsOf adminUid)
            in case clientSnapshot of
                 d # _ \<Rightarrow> (Some (adminUid, d), [adminUid])
               | [] \<Rightarrow> (let (found, queried) = scanUsers clientsOf userId rest
                        in (found, adminUid # queried)))
      else scanUsers clientsOf userId rest)"

text \<open>
  The outcome: the state \<open>(adminUserId, clientProfile)\<close> it sets, or the message "Tu perfil
  de cliente no ha sido asociado por un administrador. Contacta al gimnasio."
\<close>

definition fetchClientProfile ::
  "userDoc collection \<Rightarrow> (string \<Rightarrow> client collection) \<Rightarrow> string
     \<Rightarrow> message \<times> (string \<times> string \<times> client) option" where
  "fetchClientProfile users clientsOf userId =
     (case fst (scanUsers clientsOf userId users) of
        Some found \<Rightarrow> (NoMsg, Some found)
      | None \<Rightarrow> (ErrorMsg NotAssociated, None))"

section \<open>Sequences of shift operations\<close>

text \<open>
  The operations that write to the shifts of one administrator, each with the form state or
  arguments of its handler. A handler of the Shifts component reads the snapshot of the
  whole collection; one of the ClientDashboard reads the snapshot of the shifts that lie in
  the future, given here by the predicate that selects them.
\<close>

datatype op =
    AddShift string string field string string
  | UpdateShift "(string \<times> shift) option" string string field string
  | DeleteShift string
  | BookClient string string
  | RemoveClientFromShift string string
  | BookShift "string \<times> shift \<Rightarrow> bool" string string
  | UnbookShift "string \<times> shift \<Rightarrow> bool" string string
  | DeleteClient string

fun exec :: "op \<Rightarrow> db \<Rightarrow> db" where
  "exec (AddShift d t c m newId) db = snd (handleAddShift d t c m newId db)"
| "exec (UpdateShift cur d t c m) db = snd (handleUpdateShift cur d t c m db)"
| "exec (DeleteShift shiftId) db = snd (confirmDeleteShift shiftId db)"
| "exec (BookClient selected shiftId) db = snd (handleBookClient (db_shifts db) selected shiftId db)"
| "exec (RemoveClientFromShift shiftId cid) db =
     snd (handleRemoveClientFromShift (db_shifts db) shiftId cid db)"
| "exec (BookShift future userId shiftId) db =
     snd (handleBookShift (filter future (db_shifts db)) userId shiftId db)"
| "exec (UnbookShift future userId shiftId) db =
     snd (handleUnbookShift (filter future (db_shifts db)) userId shiftId db)"
| "exec (DeleteClient cid) db = snd (confirmDeleteClient cid db)"



fun isUpdate :: "op \<Rightarrow> bool" where
  "isUpdate (UpdateShift cur d t c m) = True"
| "isUpdate _ = False"

text \<open>
  An update keeps the bookings when the capacity it writes is not below the number of
  clients booked, at that moment, on the shift it edits; any other operation does. A
  sequence keeps the bookings when each of its operations does in the store it meets.
\<close>

fun keepsBookings :: "op \<Rightarrow> db \<Rightarrow> bool" where
  "keepsBookings (UpdateShift cur d t c m) db =
     (case cur of
        None \<Rightarrow> True
      | Some x \<Rightarrow>
          (\<forall>s \<in> set (db_shifts db).
             fst s = fst x \<longrightarrow> of_nat (length (bookedClients (snd s))) \<le> Number c))"
| "keepsBookings _ db = True"

fun runKeepsBookings :: "op list \<Rightarrow> db \<Rightarrow> bool" where
  "runKeepsBookings [] db = True"
| "runKeepsBookings (x # xs) db = (keepsBookings x db \<and> runKeepsBookings xs (exec x db))"







section \<open>Example data\<close>

text \<open>
  A small store for the concrete instances below: two shifts of modality m1, the first
  with room for two and client a booked; clients a and b; two payments of a and one of b;
  a second modality m2 that no shift refers to.
\<close>

definition shiftA :: shift where
  "shiftA = \<lparr>date = ''2024-03-11'', time = ''10:00'', capacity = 2, modalityId = ''m1'',
             bookedClients = [''a'']\<rparr>"

definition shiftB :: shift where
  "shiftB = \<lparr>date = ''2024-03-12'', time = ''18:30'', capacity = 1, modalityId = ''m1'',
             bookedClients = [''b'']\<rparr>"

definition dbA :: db where
  "dbA = \<lparr>db_shifts = [(''s1'', shiftA), (''s2'', shiftB)],
          db_clients =
            [(''a'', \<lparr>name = ''Ana'', phone = ''555'', email = ''ana@example.org'',
                      associatedUserUid = Some ''u7'', currentModalityId = Some ''m1''\<rparr>),
             (''b'', \<lparr>name = ''Beto'', phone = '''', email = '''',
                      associatedUserUid = None, currentModalityId = None\<rparr>)],
          db_payments =
            [(''p1'', \<lparr>clientId = ''a'', amount = 100, paymentDate = 7, paymentMonth = 3,
                       paymentYear = 2024\<rparr>),
             (''p2'', \<lparr>clientId = ''b'', amount = 80, paymentDate = 8, paymentMonth = 3,
                       paymentYear = 2024\<rparr>),
             (''p3'', \<lparr>clientId = ''a'', amount = 100, paymentDate = 2, paymentMonth = 2,
                       paymentYear = 2024\<rparr>)],
          db_modalities =
            [(''m1'', \<lparr>modalityName = ''Yoga'', price = 100, description = ''''\<rparr>),
             (''m2'', \<lparr>modalityName = ''Pilates'', price = 120, description = ''''\<rparr>)]\<rparr>"

definition emptyDb :: db where
  "emptyDb = \<lparr>db_shifts = [], db_clients = [], db_payments = [], db_modalities = []\<rparr>"

text \<open>
  Accounts for the concrete instances: a client account u7 and three administrators, of
  which only adm2 has clients, those of the example store (client a is linked to u7).
\<close>

definition usersA :: "userDoc collection" where
  "usersA = [(''u7'', \<lparr>userEmail = ''ana@example.org'', role = ''client''\<rparr>),
             (''adm1'', \<lparr>userEmail = ''one@example.org'', role = ''admin''\<rparr>),
             (''adm2'', \<lparr>userEmail = ''two@example.org'', role = ''admin''\<rparr>),
             (''adm3'', \<lparr>userEmail = ''three@example.org'', role = ''admin''\<rparr>)]"

definition clientsOfA :: "string \<Rightarrow> client collection" where
  "clientsOfA uid = (if uid = ''adm2'' then db_clients dbA else [])"







section \<open>Properties of the payment status\<close>

lemma hasPaidThisMonth_iff:
  "hasPaidThisMonth payments today cid \<longleftrightarrow> (\<exists>d \<in> set payments. relevant today cid d)"
  unfolding hasPaidThisMonth_def relevant_def list_ex_iff Let_def
  by (auto simp: case_prod_beta)

text \<open>
  C3. The status is paid exactly when some payment of the snapshot carries the client id,
  the month of the date (1-based) and the year of the date; when there is none, it is
  overdue exactly when the day of the month is greater than 10, and pending otherwise.
\<close>

theorem C3_payment_status:
  "(getPaymentStatus payments today cid = Al_dia
      \<longleftrightarrow> (\<exists>d \<in> set payments. clientId (snd d) = cid
              \<and> paymentMonth (snd d) = of_nat (getMonth today + 1)
              \<and> paymentYear (snd d) = of_int (getFullYear today)))
   \<and> (\<not> (\<exists>d \<in> set payments. clientId (snd d) = cid
              \<and> paymentMonth (snd d) = of_nat (getMonth today + 1)
              \<and> paymentYear (snd d) = of_int (getFullYear today))
      \<longrightarrow> (getPaymentStatus payments today cid = Vencido \<longleftrightarrow> getDate today > 10)
        \<and> (getPaymentStatus payments today cid = Pendiente \<longleftrightarrow> getDate today \<le> 10))"
  by (auto simp: getPaymentStatus_def hasPaidThisMonth_iff relevant_def)

text \<open>
  Witness: a client without payments on 11 March 2024 is overdue (\<open>getMonth\<close> is 2 in
  March).
\<close>

theorem C3_payment_status_witness:
  "\<not> (\<exists>d \<in> set ([] :: payment collection). clientId (snd d) = ''c1''
        \<and> paymentMonth (snd d) = of_nat (getMonth \<lparr>getFullYear = 2024, getMonth = 2, getDate = 11\<rparr> + 1)
        \<and> paymentYear (snd d) = of_int (getFullYear \<lparr>getFullYear = 2024, getMonth = 2, getDate = 11\<rparr>))
   \<and> getPaymentStatus [] \<lparr>getFullYear = 2024, getMonth = 2, getDate = 11\<rparr> ''c1'' = Vencido"
  using C3_payment_status [of "[]" "\<lparr>getFullYear = 2024, getMonth = 2, getDate = 11\<rparr>" "''c1''"]
  by simp

text \<open>
  C10. Two snapshots that hold the same payments of the client for the month and year of the
  date give the same status: payments of other clients, months or years do not influence it.
\<close>

theorem C10_status_noninterference:
  assumes "{d \<in> set payments1. clientId (snd d) = cid
              \<and> paymentMonth (snd d) = of_nat (getMonth today + 1)
              \<and> paymentYear (snd d) = of_int (getFullYear today)}
         = {d \<in> set payments2. clientId (snd d) = cid
              \<and> paymentMonth (snd d) = of_nat (getMonth today + 1)
              \<and> paymentYear (snd d) = of_int (getFullYear today)}"
  shows "getPaymentStatus payments1 today cid = getPaymentStatus payments2 today cid"
proof -
  have "(\<exists>d \<in> set payments1. relevant today cid d) \<longleftrightarrow> (\<exists>d \<in> set payments2. relevant today cid d)"
    using assms unfolding relevant_def by blast
  then show ?thesis
    by (simp add: getPaymentStatus_def hasPaidThisMonth_iff)
qed

text \<open>
  Witness: on 11 March 2024, adding a payment of another client and a February payment of
  the same client to a snapshot leaves the status of client c1 as it was.
\<close>

theorem C10_status_noninterference_witness:
  "getPaymentStatus
     [(''p1'', \<lparr>clientId = ''c1'', amount = 100, paymentDate = 7, paymentMonth = 3, paymentYear = 2024\<rparr>)]
     \<lparr>getFullYear = 2024, getMonth = 2, getDate = 11\<rparr> ''c1''
   = getPaymentStatus
     [(''p1'', \<lparr>clientId = ''c1'', amount = 100, paymentDate = 7, paymentMonth = 3, paymentYear = 2024\<rparr>),
      (''p2'', \<lparr>clientId = ''c2'', amount = 80, paymentDate = 8, paymentMonth = 3, paymentYear = 2024\<rparr>),
      (''p3'', \<lparr>clientId = ''c1'', amount = 100, paymentDate = 2, paymentMonth = 2, paymentYear = 2024\<rparr>)]
     \<lparr>getFullYear = 2024, getMonth = 2, getDate = 11\<rparr> ''c1''"
  by (rule C10_status_noninterference) auto

section \<open>Properties of the store\<close>

lemma map_of_updated:
  "map_of (map (\<lambda>(k', d). if k' = k then (k', f d) else (k', d)) col) j
   = (if j = k then map_option f (map_of col k) else map_of col j)"
  by (induction col) auto

lemma updateDoc_present:
  assumes "map_of col k = Some v"
  shows "updateDoc k f col = Some (map (\<lambda>(k', d). if k' = k then (k', f d) else (k', d)) col)"
proof -
  have "k \<in> fst ` set col"
    using assms by (metis domI dom_map_of_conv_image_fst)
  then show ?thesis by (simp add: updateDoc_def)
qed

lemma updateDoc_same:
  assumes "distinct (map fst col)" and "map_of col k = Some v" and "f v = v"
  shows "updateDoc k f col = Some col"
proof -
  have "\<And>x. x \<in> set col \<Longrightarrow> (case x of (k', d) \<Rightarrow> if k' = k then (k', f d) else (k', d)) = x"
  proof -
    fix x assume x: "x \<in> set col"
    obtain k' d where xd: "x = (k', d)" by (cases x)
    show "(case x of (k', d) \<Rightarrow> if k' = k then (k', f d) else (k', d)) = x"
    proof (cases "k' = k")
      case True
      with x xd assms(1) have "map_of col k = Some d" by simp
      with assms(2,3) have "f d = d" by simp
      with xd True show ?thesis by simp
    next
      case False
      with xd show ?thesis by simp
    qed
  qed
  then have "map (\<lambda>(k', d). if k' = k then (k', f d) else (k', d)) col = col"
    by (simp add: map_idI)
  with updateDoc_present [OF assms(2)] show ?thesis by simp
qed

section \<open>Properties of booking and unbooking\<close>

text \<open>
  C1. Let the snapshot and the store hold the shift, and let a client be selected. Booking
  shows AlreadyBooked when the id is among the booked clients; failing that, it shows
  CapacityExceeded when the number of booked clients has reached the capacity; the store is
  the same after either. Otherwise the document of the shift becomes the one with the id
  appended to the booked clients, and nothing else in the store changes. This holds for the
  administrator's \<open>handleBookClient\<close> and for the client's \<open>handleBookShift\<close>.
\<close>

theorem C1_booking:
  assumes snap: "find (\<lambda>s. fst s = shiftId) shifts = Some s"
    and store: "map_of (db_shifts db) shiftId = Some (snd s)"
    and sel: "cid \<noteq> ''''"
  shows "(cid \<in> set (bookedClients (snd s)) \<longrightarrow>
            handleBookClient shifts cid shiftId db = (ErrorMsg AlreadyBooked, db)
          \<and> handleBookShift shifts cid shiftId db = (ErrorMsg AlreadyBooked, db))
       \<and> (cid \<notin> set (bookedClients (snd s))
            \<and> capacity (snd s) \<le> of_nat (length (bookedClients (snd s))) \<longrightarrow>
            handleBookClient shifts cid shiftId db = (ErrorMsg CapacityExceeded, db)
          \<and> handleBookShift shifts cid shiftId db = (ErrorMsg CapacityExceeded, db))
       \<and> (cid \<notin> set (bookedClients (snd s))
            \<and> of_nat (length (bookedClients (snd s))) < capacity (snd s) \<longrightarrow>
            (\<exists>db'. handleBookClient shifts cid shiftId db = (SuccessMsg, db')
                 \<and> handleBookShift shifts cid shiftId db = (SuccessMsg, db')
                 \<and> map_of (db_shifts db') shiftId
                     = Some ((snd s)\<lparr>bookedClients := bookedClients (snd s) @ [cid]\<rparr>)
                 \<and> (\<forall>k. k \<noteq> shiftId \<longrightarrow> map_of (db_shifts db') k = map_of (db_shifts db) k)
                 \<and> db_clients db' = db_clients db
                 \<and> db_payments db' = db_payments db
                 \<and> db_modalities db' = db_modalities db))"
proof (intro conjI impI)
  assume "cid \<in> set (bookedClients (snd s))"
  then show "handleBookClient shifts cid shiftId db = (ErrorMsg AlreadyBooked, db)"
    and "handleBookShift shifts cid shiftId db = (ErrorMsg AlreadyBooked, db)"
    using snap sel by (simp_all add: handleBookClient_def handleBookShift_def)
next
  assume "cid \<notin> set (bookedClients (snd s))
            \<and> capacity (snd s) \<le> of_nat (length (bookedClients (snd s)))"
  then show "handleBookClient shifts cid shiftId db = (ErrorMsg CapacityExceeded, db)"
    and "handleBookShift shifts cid shiftId db = (ErrorMsg CapacityExceeded, db)"
    using snap sel by (simp_all add: handleBookClient_def handleBookShift_def)
next
  assume free: "cid \<notin> set (bookedClients (snd s))
            \<and> of_nat (length (bookedClients (snd s))) < capacity (snd s)"
  let ?f = "\<lambda>d. d\<lparr>bookedClients := bookedClients (snd s) @ [cid]\<rparr>"
  let ?col = "map (\<lambda>(k', d). if k' = shiftId then (k', ?f d) else (k', d)) (db_shifts db)"
  have upd: "updateDoc shiftId ?f (db_shifts db) = Some ?col"
    by (rule updateDoc_present [OF store])
  have a: "handleBookClient shifts cid shiftId db = (SuccessMsg, db\<lparr>db_shifts := ?col\<rparr>)"
    using snap sel free upd by (simp add: handleBookClient_def)
  have b: "handleBookShift shifts cid shiftId db = (SuccessMsg, db\<lparr>db_shifts := ?col\<rparr>)"
    using snap free upd by (simp add: handleBookShift_def)
  have c: "map_of ?col shiftId = Some (?f (snd s))"
    using store by (simp add: map_of_updated)
  have d: "\<forall>k. k \<noteq> shiftId \<longrightarrow> map_of ?col k = map_of (db_shifts db) k"
    by (simp add: map_of_updated)
  show "\<exists>db'. handleBookClient shifts cid shiftId db = (SuccessMsg, db')
                 \<and> handleBookShift shifts cid shiftId db = (SuccessMsg, db')
                 \<and> map_of (db_shifts db') shiftId
                     = Some ((snd s)\<lparr>bookedClients := bookedClients (snd s) @ [cid]\<rparr>)
                 \<and> (\<forall>k. k \<noteq> shiftId \<longrightarrow> map_of (db_shifts db') k = map_of (db_shifts db) k)
                 \<and> db_clients db' = db_clients db
                 \<and> db_payments db' = db_payments db
                 \<and> db_modalities db' = db_modalities db"
    using a b c d by (intro exI [of _ "db\<lparr>db_shifts := ?col\<rparr>"]) simp
qed

text \<open>
  Witness: in the example store shift s1 has room for two and holds client a; booking
  client b through either handler succeeds and the document then lists a and b.
\<close>

theorem C1_booking_witness:
  "find (\<lambda>s. fst s = ''s1'') (db_shifts dbA) = Some (''s1'', shiftA)
   \<and> map_of (db_shifts dbA) ''s1'' = Some shiftA
   \<and> ''b'' \<notin> set (bookedClients shiftA)
   \<and> of_nat (length (bookedClients shiftA)) < capacity shiftA
   \<and> (\<exists>db'. handleBookClient (db_shifts dbA) ''b'' ''s1'' dbA = (SuccessMsg, db')
          \<and> handleBookShift (db_shifts dbA) ''b'' ''s1'' dbA = (SuccessMsg, db')
          \<and> map_of (db_shifts db') ''s1'' = Some (shiftA\<lparr>bookedClients := [''a'', ''b'']\<rparr>))"
proof -
  have snap: "find (\<lambda>s. fst s = ''s1'') (db_shifts dbA) = Some (''s1'', shiftA)"
    by (simp add: dbA_def)
  have store: "map_of (db_shifts dbA) ''s1'' = Some (snd (''s1'', shiftA))"
    by (simp add: dbA_def)
  have sel: "''b'' \<noteq> ''''" by simp
  have free: "''b'' \<notin> set (bookedClients shiftA)"
    "of_nat (length (bookedClients shiftA)) < capacity shiftA"
    by (simp_all add: shiftA_def)
  from C1_booking [OF snap store sel] free
  obtain db' where "handleBookClient (db_shifts dbA) ''b'' ''s1'' dbA = (SuccessMsg, db')"
    and "handleBookShift (db_shifts dbA) ''b'' ''s1'' dbA = (SuccessMsg, db')"
    and "map_of (db_shifts db') ''s1'' = Some (shiftA\<lparr>bookedClients := bookedClients shiftA @ [''b'']\<rparr>)"
    by auto
  moreover have "bookedClients shiftA @ [''b''] = [''a'', ''b'']"
    by (simp add: shiftA_def)
  ultimately show ?thesis using snap store free by auto
qed

text \<open>
  C4. Let the snapshot and the store hold the shift. Unbooking, by the administrator's
  \<open>handleRemoveClientFromShift\<close> or the client's \<open>handleUnbookShift\<close>, ends without an
  error; the document of the shift then lists the booked clients without the id, which is
  no longer among them. When the id was not booked and the ids of the shift documents are
  unique, the store after the operation is the store before it.
\<close>

theorem C4_unbooking:
  assumes snap: "find (\<lambda>s. fst s = shiftId) shifts = Some s"
    and store: "map_of (db_shifts db) shiftId = Some (snd s)"
  shows "\<exists>db'. handleRemoveClientFromShift shifts shiftId cid db = (SuccessMsg, db')
             \<and> handleUnbookShift shifts cid shiftId db = (SuccessMsg, db')
             \<and> map_of (db_shifts db') shiftId
                 = Some ((snd s)\<lparr>bookedClients := filter (\<lambda>i. i \<noteq> cid) (bookedClients (snd s))\<rparr>)
             \<and> (\<forall>d. map_of (db_shifts db') shiftId = Some d \<longrightarrow> cid \<notin> set (bookedClients d))
             \<and> (\<forall>k. k \<noteq> shiftId \<longrightarrow> map_of (db_shifts db') k = map_of (db_shifts db) k)
             \<and> (cid \<notin> set (bookedClients (snd s)) \<and> distinct (map fst (db_shifts db))
                  \<longrightarrow> db' = db)"
proof -
  let ?f = "\<lambda>d. d\<lparr>bookedClients := filter (\<lambda>i. i \<noteq> cid) (bookedClients (snd s))\<rparr>"
  let ?col = "map (\<lambda>(k', d). if k' = shiftId then (k', ?f d) else (k', d)) (db_shifts db)"
  have upd: "updateDoc shiftId ?f (db_shifts db) = Some ?col"
    by (rule updateDoc_present [OF store])
  have a: "handleRemoveClientFromShift shifts shiftId cid db = (SuccessMsg, db\<lparr>db_shifts := ?col\<rparr>)"
    using snap upd by (simp add: handleRemoveClientFromShift_def)
  have b: "handleUnbookShift shifts cid shiftId db = (SuccessMsg, db\<lparr>db_shifts := ?col\<rparr>)"
    using snap upd by (simp add: handleUnbookShift_def)
  have c: "map_of ?col shiftId = Some (?f (snd s))"
    using store by (simp add: map_of_updated)
  have d: "\<forall>k. k \<noteq> shiftId \<longrightarrow> map_of ?col k = map_of (db_shifts db) k"
    by (simp add: map_of_updated)
  have e: "db\<lparr>db_shifts := ?col\<rparr> = db"
    if "cid \<notin> set (bookedClients (snd s))" and "distinct (map fst (db_shifts db))"
  proof -
    have "filter (\<lambda>i. i \<noteq> cid) (bookedClients (snd s)) = bookedClients (snd s)"
      using that(1) by (auto simp: filter_id_conv)
    then have "?f (snd s) = snd s" by simp
    from updateDoc_same [of "db_shifts db" shiftId "snd s" ?f, OF that(2) store this] upd
    have "?col = db_shifts db" by simp
    then show ?thesis by simp
  qed
  show ?thesis
    using a b c d e by (intro exI [of _ "db\<lparr>db_shifts := ?col\<rparr>"]) simp
qed

text \<open>
  Witness: client c is not booked on shift s1 of the example store; removing c ends
  without an error and leaves the store as it was.
\<close>

theorem C4_unbooking_witness:
  "find (\<lambda>s. fst s = ''s1'') (db_shifts dbA) = Some (''s1'', shiftA)
   \<and> map_of (db_shifts dbA) ''s1'' = Some shiftA
   \<and> ''c'' \<notin> set (bookedClients shiftA) \<and> distinct (map fst (db_shifts dbA))
   \<and> handleRemoveClientFromShift (db_shifts dbA) ''s1'' ''c'' dbA = (SuccessMsg, dbA)
   \<and> handleUnbookShift (db_shifts dbA) ''c'' ''s1'' dbA = (SuccessMsg, dbA)"
proof -
  have snap: "find (\<lambda>s. fst s = ''s1'') (db_shifts dbA) = Some (''s1'', shiftA)"
    by (simp add: dbA_def)
  have store: "map_of (db_shifts dbA) ''s1'' = Some (snd (''s1'', shiftA))"
    by (simp add: dbA_def)
  have absent: "''c'' \<notin> set (bookedClients (snd (''s1'', shiftA)))"
    "distinct (map fst (db_shifts dbA))"
    by (simp_all add: shiftA_def dbA_def)
  from C4_unbooking [OF snap store, of "''c''"] absent
  have "handleRemoveClientFromShift (db_shifts dbA) ''s1'' ''c'' dbA = (SuccessMsg, dbA)"
    and "handleUnbookShift (db_shifts dbA) ''c'' ''s1'' dbA = (SuccessMsg, dbA)"
    by auto
  then show ?thesis using snap store absent by simp
qed

lemma deleteDoc_conv: "deleteDoc k col = filter (\<lambda>x. fst x \<noteq> k) col"
  unfolding deleteDoc_def by (rule filter_cong) auto

lemma map_of_deleteDoc:
  "map_of (deleteDoc k col) j = (if j = k then None else map_of col j)"
  by (induction col) (auto simp: deleteDoc_def)

lemma deleteDoc_absent: "k \<notin> fst ` set (deleteDoc k col)"
  by (auto simp: deleteDoc_conv)

section \<open>Properties of deleting a modality\<close>

text \<open>
  C7. When some shift of the store refers to the modality, deleting it shows
  ReferentialConflict and leaves the store as it was, so a modality document that existed
  still exists. When no shift refers to it, the operation succeeds, the store holds no
  modality document with that id any more, and every other document is as before.
\<close>

theorem C7_delete_modality:
  "((\<exists>s \<in> set (db_shifts db). modalityId (snd s) = mid) \<longrightarrow>
      confirmDeleteModality mid db = (ErrorMsg ReferentialConflict, db)
      \<and> map_of (db_modalities (snd (confirmDeleteModality mid db))) mid
          = map_of (db_modalities db) mid)
   \<and> (\<not> (\<exists>s \<in> set (db_shifts db). modalityId (snd s) = mid) \<longrightarrow>
      (\<exists>db'. confirmDeleteModality mid db = (SuccessMsg, db')
          \<and> mid \<notin> fst ` set (db_modalities db')
          \<and> (\<forall>k. k \<noteq> mid \<longrightarrow> map_of (db_modalities db') k = map_of (db_modalities db) k)
          \<and> db_shifts db' = db_shifts db
          \<and> db_clients db' = db_clients db
          \<and> db_payments db' = db_payments db))"
proof (intro conjI impI)
  assume "\<exists>s \<in> set (db_shifts db). modalityId (snd s) = mid"
  then have "filter (\<lambda>(_, s). modalityId s = mid) (db_shifts db) \<noteq> []"
    by (auto simp: filter_empty_conv)
  then show "confirmDeleteModality mid db = (ErrorMsg ReferentialConflict, db)"
    by (simp add: confirmDeleteModality_def)
  then show "map_of (db_modalities (snd (confirmDeleteModality mid db))) mid
          = map_of (db_modalities db) mid"
    by simp
next
  assume "\<not> (\<exists>s \<in> set (db_shifts db). modalityId (snd s) = mid)"
  then have "filter (\<lambda>(_, s). modalityId s = mid) (db_shifts db) = []"
    by (auto simp: filter_empty_conv)
  then have "confirmDeleteModality mid db
      = (SuccessMsg, db\<lparr>db_modalities := deleteDoc mid (db_modalities db)\<rparr>)"
    by (simp add: confirmDeleteModality_def)
  then show "\<exists>db'. confirmDeleteModality mid db = (SuccessMsg, db')
          \<and> mid \<notin> fst ` set (db_modalities db')
          \<and> (\<forall>k. k \<noteq> mid \<longrightarrow> map_of (db_modalities db') k = map_of (db_modalities db) k)
          \<and> db_shifts db' = db_shifts db
          \<and> db_clients db' = db_clients db
          \<and> db_payments db' = db_payments db"
    using deleteDoc_absent [of mid "db_modalities db"]
    by (intro exI [of _ "db\<lparr>db_modalities := deleteDoc mid (db_modalities db)\<rparr>"])
       (simp add: map_of_deleteDoc)
qed

text \<open>
  Witness: in the example store both shifts refer to modality m1, whose deletion is refused
  and which is still there; no shift refers to m2, whose deletion removes it.
\<close>

theorem C7_delete_modality_witness:
  "(\<exists>s \<in> set (db_shifts dbA). modalityId (snd s) = ''m1'')
   \<and> confirmDeleteModality ''m1'' dbA = (ErrorMsg ReferentialConflict, dbA)
   \<and> map_of (db_modalities (snd (confirmDeleteModality ''m1'' dbA))) ''m1''
       = Some \<lparr>modalityName = ''Yoga'', price = 100, description = ''''\<rparr>
   \<and> \<not> (\<exists>s \<in> set (db_shifts dbA). modalityId (snd s) = ''m2'')
   \<and> ''m2'' \<in> fst ` set (db_modalities dbA)
   \<and> (\<exists>db'. confirmDeleteModality ''m2'' dbA = (SuccessMsg, db')
          \<and> ''m2'' \<notin> fst ` set (db_modalities db'))"
proof -
  have used: "\<exists>s \<in> set (db_shifts dbA). modalityId (snd s) = ''m1''"
    by (simp add: dbA_def shiftA_def)
  have unused: "\<not> (\<exists>s \<in> set (db_shifts dbA). modalityId (snd s) = ''m2'')"
    by (simp add: dbA_def shiftA_def shiftB_def)
  have there: "map_of (db_modalities dbA) ''m1''
      = Some \<lparr>modalityName = ''Yoga'', price = 100, description = ''''\<rparr>"
    "''m2'' \<in> fst ` set (db_modalities dbA)"
    by (simp_all add: dbA_def)
  from C7_delete_modality [of dbA "''m1''"] used there
  have a: "confirmDeleteModality ''m1'' dbA = (ErrorMsg ReferentialConflict, dbA)"
    "map_of (db_modalities (snd (confirmDeleteModality ''m1'' dbA))) ''m1''
       = Some \<lparr>modalityName = ''Yoga'', price = 100, description = ''''\<rparr>"
    by simp_all
  from C7_delete_modality [of dbA "''m2''"] unused
  have b: "\<exists>db'. confirmDeleteModality ''m2'' dbA = (SuccessMsg, db')
          \<and> ''m2'' \<notin> fst ` set (db_modalities db')"
    by blast
  show ?thesis using used unused there a b by blast
qed

section \<open>Properties of deleting a client\<close>

lemma delete_payments_loop:
  "foldl (\<lambda>d paymentDoc. d\<lparr>db_payments := deleteDoc (fst paymentDoc) (db_payments d)\<rparr>) db ps
   = db\<lparr>db_payments := filter (\<lambda>x. fst x \<notin> fst ` set ps) (db_payments db)\<rparr>"
proof (induction ps arbitrary: db)
  case Nil
  show ?case by simp
next
  case (Cons p ps)
  have "filter (\<lambda>x. fst x \<notin> fst ` set ps) (deleteDoc (fst p) (db_payments db))
      = filter (\<lambda>x. fst x \<notin> fst ` set (p # ps)) (db_payments db)"
    unfolding deleteDoc_conv filter_filter by (rule filter_cong) auto
  with Cons.IH [of "db\<lparr>db_payments := deleteDoc (fst p) (db_payments db)\<rparr>"]
  show ?case by simp
qed

lemma unbookStep_others:
  "db_clients (unbookStep cid d sd) = db_clients d"
  "db_payments (unbookStep cid d sd) = db_payments d"
  "db_modalities (unbookStep cid d sd) = db_modalities d"
  by (simp_all add: unbookStep_def Let_def split: option.splits)

lemma unbook_loop_others:
  "db_clients (foldl (unbookStep cid) d sds) = db_clients d"
  "db_payments (foldl (unbookStep cid) d sds) = db_payments d"
  "db_modalities (foldl (unbookStep cid) d sds) = db_modalities d"
  by (induction sds arbitrary: d) (simp_all add: unbookStep_others)

lemma unbookStep_shifts:
  assumes "s' \<in> set (db_shifts (unbookStep cid d sd))"
  shows "\<exists>s \<in> set (db_shifts d).
           (fst s \<noteq> fst sd \<and> s' = s)
           \<or> (fst s = fst sd
              \<and> s' = (fst s, (snd s)\<lparr>bookedClients := filter (\<lambda>i. i \<noteq> cid) (bookedClients (snd sd))\<rparr>))"
proof (cases "fst sd \<in> fst ` set (db_shifts d)")
  case False
  with assms have "s' \<in> set (db_shifts d)"
    by (simp add: unbookStep_def updateDoc_def Let_def)
  moreover from this False have "fst s' \<noteq> fst sd" by (metis imageI)
  ultimately show ?thesis by blast
next
  case True
  let ?f = "\<lambda>x. x\<lparr>bookedClients := filter (\<lambda>i. i \<noteq> cid) (bookedClients (snd sd))\<rparr>"
  from True assms
  have "s' \<in> set (map (\<lambda>(k', x). if k' = fst sd then (k', ?f x) else (k', x)) (db_shifts d))"
    by (simp add: unbookStep_def updateDoc_def Let_def)
  then obtain s where s: "s \<in> set (db_shifts d)"
    and s': "s' = (case s of (k', x) \<Rightarrow> if k' = fst sd then (k', ?f x) else (k', x))"
    by auto
  show ?thesis
  proof (cases "fst s = fst sd")
    case True
    with s' have "s' = (fst s, ?f (snd s))" by (simp add: case_prod_beta)
    with s True show ?thesis by blast
  next
    case False
    with s' have "s' = s" by (simp add: case_prod_beta)
    with s False show ?thesis by blast
  qed
qed

lemma unbook_loop_removes:
  assumes "\<forall>s \<in> set (db_shifts d). cid \<in> set (bookedClients (snd s)) \<longrightarrow> fst s \<in> fst ` set sds"
  shows "\<forall>s \<in> set (db_shifts (foldl (unbookStep cid) d sds)). cid \<notin> set (bookedClients (snd s))"
  using assms
proof (induction sds arbitrary: d)
  case Nil
  then show ?case by simp
next
  case (Cons sd sds)
  have "\<forall>s' \<in> set (db_shifts (unbookStep cid d sd)).
          cid \<in> set (bookedClients (snd s')) \<longrightarrow> fst s' \<in> fst ` set sds"
  proof (intro ballI impI)
    fix s' assume s': "s' \<in> set (db_shifts (unbookStep cid d sd))"
      and c: "cid \<in> set (bookedClients (snd s'))"
    from unbookStep_shifts [OF s'] c
    obtain s where s: "s \<in> set (db_shifts d)" "fst s \<noteq> fst sd" "s' = s"
      by auto
    with c Cons.prems have "fst s \<in> fst ` set (sd # sds)" by blast
    with s show "fst s' \<in> fst ` set sds" by auto
  qed
  from Cons.IH [OF this] show ?case by simp
qed

lemma confirmDeleteClient_conv:
  "confirmDeleteClient cid db =
     (SuccessMsg,
      foldl (unbookStep cid)
        (db\<lparr>db_clients := deleteDoc cid (db_clients db),
            db_payments :=
              filter (\<lambda>x. fst x \<notin> fst ` set (filter (\<lambda>(_, p). clientId p = cid) (db_payments db)))
                (db_payments db)\<rparr>)
        (filter (\<lambda>(_, s). cid \<in> set (bookedClients s)) (db_shifts db)))"
  unfolding confirmDeleteClient_def Let_def delete_payments_loop by simp

text \<open>
  C6. Deleting a client succeeds, and in the store it leaves no payment carries the client
  id, no shift lists the id among its booked clients, and there is no client document with
  the id. The other clients and the modalities are as before.
\<close>

theorem C6_delete_client:
  "\<exists>db'. confirmDeleteClient cid db = (SuccessMsg, db')
      \<and> (\<forall>p \<in> set (db_payments db'). clientId (snd p) \<noteq> cid)
      \<and> (\<forall>s \<in> set (db_shifts db'). cid \<notin> set (bookedClients (snd s)))
      \<and> cid \<notin> fst ` set (db_clients db')
      \<and> (\<forall>k. k \<noteq> cid \<longrightarrow> map_of (db_clients db') k = map_of (db_clients db) k)
      \<and> db_modalities db' = db_modalities db"
proof -
  let ?ps = "filter (\<lambda>(_, p). clientId p = cid) (db_payments db)"
  let ?db2 = "db\<lparr>db_clients := deleteDoc cid (db_clients db),
                 db_payments := filter (\<lambda>x. fst x \<notin> fst ` set ?ps) (db_payments db)\<rparr>"
  let ?sds = "filter (\<lambda>(_, s). cid \<in> set (bookedClients s)) (db_shifts db)"
  let ?db3 = "foldl (unbookStep cid) ?db2 ?sds"
  have res: "confirmDeleteClient cid db = (SuccessMsg, ?db3)"
    by (rule confirmDeleteClient_conv)
  have pay: "\<forall>p \<in> set (db_payments ?db3). clientId (snd p) \<noteq> cid"
  proof
    fix p assume "p \<in> set (db_payments ?db3)"
    then have p: "p \<in> set (db_payments db)" "fst p \<notin> fst ` set ?ps"
      by (simp_all add: unbook_loop_others)
    show "clientId (snd p) \<noteq> cid"
    proof
      assume "clientId (snd p) = cid"
      with p(1) have "p \<in> set ?ps" by (auto simp: case_prod_beta)
      with p(2) show False by blast
    qed
  qed
  have "\<forall>s \<in> set (db_shifts ?db2). cid \<in> set (bookedClients (snd s)) \<longrightarrow> fst s \<in> fst ` set ?sds"
    by force
  then have shf: "\<forall>s \<in> set (db_shifts ?db3). cid \<notin> set (bookedClients (snd s))"
    by (rule unbook_loop_removes)
  have cl: "cid \<notin> fst ` set (db_clients ?db3)"
    "\<forall>k. k \<noteq> cid \<longrightarrow> map_of (db_clients ?db3) k = map_of (db_clients db) k"
    using deleteDoc_absent [of cid "db_clients db"]
    by (simp_all add: unbook_loop_others map_of_deleteDoc)
  have md: "db_modalities ?db3 = db_modalities db"
    by (simp add: unbook_loop_others)
  show ?thesis using res pay shf cl md by blast
qed

text \<open>
  Witness: in the example store client a has two payments and is booked on one shift; after
  the deletion none of its payments is left, no shift lists it and its document is gone.
\<close>

theorem C6_delete_client_witness:
  "length (filter (\<lambda>p. clientId (snd p) = ''a'') (db_payments dbA)) = 2
   \<and> length (filter (\<lambda>s. ''a'' \<in> set (bookedClients (snd s))) (db_shifts dbA)) = 1
   \<and> ''a'' \<in> fst ` set (db_clients dbA)
   \<and> (\<exists>db'. confirmDeleteClient ''a'' dbA = (SuccessMsg, db')
          \<and> filter (\<lambda>p. clientId (snd p) = ''a'') (db_payments db') = []
          \<and> filter (\<lambda>s. ''a'' \<in> set (bookedClients (snd s))) (db_shifts db') = []
          \<and> ''a'' \<notin> fst ` set (db_clients db'))"
proof -
  have before: "length (filter (\<lambda>p. clientId (snd p) = ''a'') (db_payments dbA)) = 2"
    "length (filter (\<lambda>s. ''a'' \<in> set (bookedClients (snd s))) (db_shifts dbA)) = 1"
    "''a'' \<in> fst ` set (db_clients dbA)"
    by (simp_all add: dbA_def shiftA_def shiftB_def)
  from C6_delete_client [of "''a''" dbA]
  obtain db' where "confirmDeleteClient ''a'' dbA = (SuccessMsg, db')"
    and "\<forall>p \<in> set (db_payments db'). clientId (snd p) \<noteq> ''a''"
    and "\<forall>s \<in> set (db_shifts db'). ''a'' \<notin> set (bookedClients (snd s))"
    and "''a'' \<notin> fst ` set (db_clients db')"
    by blast
  then have "\<exists>db'. confirmDeleteClient ''a'' dbA = (SuccessMsg, db')
          \<and> filter (\<lambda>p. clientId (snd p) = ''a'') (db_payments db') = []
          \<and> filter (\<lambda>s. ''a'' \<in> set (bookedClients (snd s))) (db_shifts db') = []
          \<and> ''a'' \<notin> fst ` set (db_clients db')"
    by (intro exI [of _ db']) (simp add: filter_empty_conv)
  with before show ?thesis by simp
qed

section \<open>Properties of recording a payment\<close>

text \<open>
  What the guards of \<open>handleAddPayment\<close> decide, for any value of the month: the
  operation shows ValidationError and leaves the store as it was whenever no client is
  selected, the amount is missing, not a number or at most 0, or the month or the year is
  missing (falsy); otherwise the store gains one payment with the current time as its
  timestamp. The handler itself does not look at the range of the month.
\<close>

lemma handleAddPayment_guard:
  "((cid = '''' \<or> \<not> truthy amt \<or> parseFloat amt = None
       \<or> (\<exists>a. parseFloat amt = Some a \<and> a \<le> 0)
       \<or> \<not> truthy month \<or> \<not> truthy year) \<longrightarrow>
      handleAddPayment cid amt month year now newId db = (ErrorMsg ValidationError, db))
   \<and> (\<not> (cid = '''' \<or> \<not> truthy amt \<or> parseFloat amt = None
       \<or> (\<exists>a. parseFloat amt = Some a \<and> a \<le> 0)
       \<or> \<not> truthy month \<or> \<not> truthy year) \<longrightarrow>
      (\<exists>a. parseFloat amt = Some a \<and> 0 < a
         \<and> handleAddPayment cid amt month year now newId db
            = (SuccessMsg,
               db\<lparr>db_payments :=
                    db_payments db
                    @ [(newId, \<lparr>clientId = cid, amount = a, paymentDate = now,
                                paymentMonth = Number month,
                                paymentYear = Number year\<rparr>)]\<rparr>)))"
  by (cases "parseFloat amt") (auto simp: handleAddPayment_def addDoc_def)

text \<open>Every month the form can hold is a number from 1 to 12, and truthy.\<close>

lemma formMonth_range:
  assumes "getMonth today < 12" and "formMonth today month"
  shows "1 \<le> Number month \<and> Number month \<le> 12 \<and> truthy month"
proof -
  from assms(2) consider "month = Num (of_nat (getMonth today + 1))"
    | index where "index < 12" and "month = Text (of_nat (index + 1))"
    by (auto simp: formMonth_def initialMonth_def monthOptions_def monthNames_def)
  then show ?thesis
  proof cases
    case 1
    from assms(1) have "getMonth today + 1 \<le> 12" by simp
    then have "(of_nat (getMonth today + 1) :: rat) \<le> of_nat 12"
      by (simp only: of_nat_le_iff)
    moreover have "(of_nat 1 :: rat) \<le> of_nat (getMonth today + 1)"
      by simp
    moreover have "(of_nat (getMonth today + 1) :: rat) \<noteq> 0"
      using of_nat_eq_0_iff [where ?'a = rat, of "getMonth today + 1"] by simp
    ultimately show ?thesis using 1 by simp
  next
    case 2
    from 2(1) have "index + 1 \<le> 12" by simp
    then have "(of_nat (index + 1) :: rat) \<le> of_nat 12"
      by (simp only: of_nat_le_iff)
    moreover have "(of_nat 1 :: rat) \<le> of_nat (index + 1)"
      by simp
    ultimately show ?thesis using 2(2) by simp
  qed
qed

text \<open>The first guard refuses exactly the amounts that are at most 0 as numbers.\<close>

lemma amount_refused:
  "(\<not> truthy amt \<or> parseFloat amt = None \<or> (\<exists>a. parseFloat amt = Some a \<and> a \<le> 0))
   \<longleftrightarrow> Number amt \<le> 0"
  by (cases amt) auto

text \<open>
  C8, as the code has it. Let the month be one the payment form can hold: the month of a
  date plus one, or an option of the month selector. Then the month is a number from 1 to
  12. Recording a payment shows ValidationError and leaves the store as it was whenever the
  amount is at most 0 or the month is outside 1 to 12, as the claim says, and also whenever
  no client is selected or the year is missing. In every other case the store gains one
  payment under the new id with the client, the amount, the month and the year of the form
  and the current time as its timestamp.
\<close>

theorem C8_record_payment:
  assumes "getMonth today < 12" and "formMonth today month"
  shows "(1 \<le> Number month \<and> Number month \<le> 12)
   \<and> ((Number amt \<le> 0 \<or> \<not> (1 \<le> Number month \<and> Number month \<le> 12)
         \<or> cid = '''' \<or> \<not> truthy year) \<longrightarrow>
        handleAddPayment cid amt month year now newId db = (ErrorMsg ValidationError, db))
   \<and> (\<not> (Number amt \<le> 0 \<or> \<not> (1 \<le> Number month \<and> Number month \<le> 12)
         \<or> cid = '''' \<or> \<not> truthy year) \<longrightarrow>
        handleAddPayment cid amt month year now newId db
          = (SuccessMsg,
             db\<lparr>db_payments :=
                  db_payments db
                  @ [(newId, \<lparr>clientId = cid, amount = Number amt, paymentDate = now,
                              paymentMonth = Number month,
                              paymentYear = Number year\<rparr>)]\<rparr>))"
proof -
  from formMonth_range [OF assms]
  have range: "1 \<le> Number month \<and> Number month \<le> 12" and given: "truthy month"
    by simp_all
  have refused: "handleAddPayment cid amt month year now newId db = (ErrorMsg ValidationError, db)"
    if "Number amt \<le> 0 \<or> cid = '''' \<or> \<not> truthy year"
  proof -
    from that amount_refused [of amt]
    have "cid = '''' \<or> \<not> truthy amt \<or> parseFloat amt = None
       \<or> (\<exists>a. parseFloat amt = Some a \<and> a \<le> 0)
       \<or> \<not> truthy month \<or> \<not> truthy year"
      by blast
    with handleAddPayment_guard [of cid amt month year now newId db] show ?thesis
      by blast
  qed
  have recorded: "handleAddPayment cid amt month year now newId db
          = (SuccessMsg,
             db\<lparr>db_payments :=
                  db_payments db
                  @ [(newId, \<lparr>clientId = cid, amount = Number amt, paymentDate = now,
                              paymentMonth = Number month,
                              paymentYear = Number year\<rparr>)]\<rparr>)"
    if "\<not> (Number amt \<le> 0 \<or> cid = '''' \<or> \<not> truthy year)"
  proof -
    from that amount_refused [of amt] given
    have "\<not> (cid = '''' \<or> \<not> truthy amt \<or> parseFloat amt = None
       \<or> (\<exists>a. parseFloat amt = Some a \<and> a \<le> 0)
       \<or> \<not> truthy month \<or> \<not> truthy year)"
      by blast
    with handleAddPayment_guard [of cid amt month year now newId db]
    obtain a where a: "parseFloat amt = Some a"
      and res: "handleAddPayment cid amt month year now newId db
            = (SuccessMsg,
               db\<lparr>db_payments :=
                    db_payments db
                    @ [(newId, \<lparr>clientId = cid, amount = a, paymentDate = now,
                                paymentMonth = Number month,
                                paymentYear = Number year\<rparr>)]\<rparr>)"
      by blast
    from a have "Number amt = a" by (cases amt) simp_all
    with res show ?thesis by simp
  qed
  from range refused recorded show ?thesis by blast
qed

text \<open>
  Witness: on 11 March 2024 the form holds the month 3, set by the selector. An amount of 0
  for client a is refused; an amount of 50 is recorded for March 2024 with the time of
  recording, 9.
\<close>

theorem C8_record_payment_witness:
  "getMonth \<lparr>getFullYear = 2024, getMonth = 2, getDate = 11\<rparr> < 12
   \<and> formMonth \<lparr>getFullYear = 2024, getMonth = 2, getDate = 11\<rparr> (Text 3)
   \<and> handleAddPayment ''a'' (Text 0) (Text 3) (Text 2024) 9 ''p9'' emptyDb
       = (ErrorMsg ValidationError, emptyDb)
   \<and> handleAddPayment ''a'' (Text 50) (Text 3) (Text 2024) 9 ''p9'' emptyDb
       = (SuccessMsg,
          emptyDb\<lparr>db_payments :=
            [(''p9'', \<lparr>clientId = ''a'', amount = 50, paymentDate = 9,
                       paymentMonth = 3, paymentYear = 2024\<rparr>)]\<rparr>)"
proof -
  let ?today = "\<lparr>getFullYear = 2024, getMonth = 2, getDate = 11\<rparr>"
  have date: "getMonth ?today < 12" by simp
  have "Text 3 = Text (of_nat (2 + 1))" by simp
  moreover have "(2::nat) \<in> set [0..<length monthNames]" by (simp add: monthNames_def)
  ultimately have "Text 3 \<in> set monthOptions"
    unfolding monthOptions_def by (metis (no_types, lifting) image_eqI list.set_map)
  then have form: "formMonth ?today (Text 3)" by (simp add: formMonth_def)
  from C8_record_payment [OF date form, of "Text 0" "''a''" "Text 2024" 9 "''p9''" emptyDb]
  have a: "handleAddPayment ''a'' (Text 0) (Text 3) (Text 2024) 9 ''p9'' emptyDb
       = (ErrorMsg ValidationError, emptyDb)"
    by simp
  from C8_record_payment [OF date form, of "Text 50" "''a''" "Text 2024" 9 "''p9''" emptyDb]
  have b: "handleAddPayment ''a'' (Text 50) (Text 3) (Text 2024) 9 ''p9'' emptyDb
       = (SuccessMsg,
          emptyDb\<lparr>db_payments :=
            [(''p9'', \<lparr>clientId = ''a'', amount = 50, paymentDate = 9,
                       paymentMonth = 3, paymentYear = 2024\<rparr>)]\<rparr>)"
    by (simp add: emptyDb_def)
  from date form a b show ?thesis by simp
qed

text \<open>
  The claim as stated fails on the form as it opens on 11 March 2024, with the month 3 and
  the year 2024 it starts with. With an amount of 50 typed and no client selected, the
  amount is above 0 and the month within 1 to 12, and the operation shows ValidationError
  and records nothing. The same happens with client a selected and the year field cleared.
\<close>

theorem C8_missing_fields_counterexample:
  "formMonth \<lparr>getFullYear = 2024, getMonth = 2, getDate = 11\<rparr> (Num 3)
   \<and> \<not> Number (Text 50) \<le> 0
   \<and> 1 \<le> Number (Num 3) \<and> Number (Num 3) \<le> 12
   \<and> handleAddPayment '''' (Text 50) (Num 3) (Num 2024) 9 ''p9'' emptyDb
       = (ErrorMsg ValidationError, emptyDb)
   \<and> handleAddPayment ''a'' (Text 50) (Num 3) Blank 9 ''p9'' emptyDb
       = (ErrorMsg ValidationError, emptyDb)"
  by (simp add: formMonth_def initialMonth_def handleAddPayment_def)

section \<open>Properties of creating a shift\<close>

text \<open>
  What the guard of \<open>handleAddShift\<close> decides: the operation shows ValidationError and
  leaves the store as it was when the date, the time or the modality is missing or the
  capacity is at most 0; otherwise it adds a shift without booked clients.
\<close>

lemma handleAddShift_guard:
  "((d = '''' \<or> t = '''' \<or> m = '''' \<or> Number c \<le> 0) \<longrightarrow>
      handleAddShift d t c m newId db = (ErrorMsg ValidationError, db))
   \<and> (\<not> (d = '''' \<or> t = '''' \<or> m = '''' \<or> Number c \<le> 0) \<longrightarrow>
      handleAddShift d t c m newId db
        = (SuccessMsg,
           db\<lparr>db_shifts :=
                db_shifts db
                @ [(newId, \<lparr>date = d, time = t, capacity = Number c, modalityId = m,
                            bookedClients = []\<rparr>)]\<rparr>))"
  by (auto simp: handleAddShift_def addDoc_def)

text \<open>On whole numbers a capacity below 1 is a capacity of at most 0, and is refused.\<close>

lemma handleAddShift_whole:
  assumes "Number c \<in> \<int>" and "Number c < 1"
  shows "handleAddShift d t c m newId db = (ErrorMsg ValidationError, db)"
proof -
  from assms(1) obtain z :: int where z: "Number c = of_int z" by (auto elim: Ints_cases)
  with assms(2) have "z < 1" by simp
  then have "z \<le> 0" by simp
  with z have "Number c \<le> 0" by simp
  then show ?thesis by (simp add: handleAddShift_def)
qed

text \<open>
  C9 at the input where the code departs from it: with date, time and modality given and
  the capacity field reading 0.5, which is below 1, the operation shows no ValidationError
  and creates a shift of capacity 1/2.
\<close>

theorem C9_fractional_capacity:
  "Number (Text (1/2)) < 1
   \<and> handleAddShift ''2024-03-11'' ''10:00'' (Text (1/2)) ''m1'' ''s9'' emptyDb
       = (SuccessMsg,
          emptyDb\<lparr>db_shifts :=
            [(''s9'', \<lparr>date = ''2024-03-11'', time = ''10:00'', capacity = 1/2,
                       modalityId = ''m1'', bookedClients = []\<rparr>)]\<rparr>)"
  by (simp add: handleAddShift_def addDoc_def emptyDb_def)

section \<open>Properties of finding the client profile\<close>

lemma scanUsers_none:
  assumes "\<forall>x \<in> set users. role (snd x) = ''admin'' \<longrightarrow>
             filter (\<lambda>(_, c). associatedUserUid c = Some userId) (clientsOf (fst x)) = []"
  shows "fst (scanUsers clientsOf userId users) = None"
  using assms by (induction users) (auto simp: Let_def split: prod.splits)

lemma scanUsers_found:
  assumes "(a, u) \<in> set users" and "role u = ''admin''"
    and "filter (\<lambda>(_, c). associatedUserUid c = Some userId) (clientsOf a) = d # ds"
    and "\<forall>x \<in> set users. role (snd x) = ''admin'' \<and> fst x \<noteq> a \<longrightarrow>
           filter (\<lambda>(_, c). associatedUserUid c = Some userId) (clientsOf (fst x)) = []"
  shows "fst (scanUsers clientsOf userId users) = Some (a, d)
       \<and> (\<exists>qs. snd (scanUsers clientsOf userId users) = qs @ [a] \<and> a \<notin> set qs)"
  using assms(1,4)
proof (induction users)
  case Nil
  then show ?case by simp
next
  case (Cons x xs)
  show ?case
  proof (cases "role (snd x) = ''admin''")
    case False
    with Cons.prems(1) assms(2) have "(a, u) \<in> set xs" by auto
    with Cons.IH Cons.prems(2) False show ?thesis by simp
  next
    case admin: True
    show ?thesis
    proof (cases "fst x = a")
      case True
      with admin assms(3) show ?thesis by simp
    next
      case False
      with Cons.prems(1) have "(a, u) \<in> set xs" by auto
      with Cons.IH Cons.prems(2)
      obtain qs where ih: "fst (scanUsers clientsOf userId xs) = Some (a, d)"
        "snd (scanUsers clientsOf userId xs) = qs @ [a]" "a \<notin> set qs"
        by auto
      from admin False Cons.prems(2)
      have none: "filter (\<lambda>(_, c). associatedUserUid c = Some userId) (clientsOf (fst x)) = []"
        by simp
      have "fst (scanUsers clientsOf userId (x # xs)) = Some (a, d)"
        using admin none ih(1) by (simp add: Let_def case_prod_beta)
      moreover have "snd (scanUsers clientsOf userId (x # xs)) = (fst x # qs) @ [a]"
        using admin none ih(2) by (simp add: Let_def case_prod_beta)
      moreover have "a \<notin> set (fst x # qs)"
        using False ih(3) by auto
      ultimately show ?thesis by blast
    qed
  qed
qed

lemma find_filter: "find P xs = Some d \<Longrightarrow> \<exists>ds. filter P xs = d # ds"
  by (induction xs) (auto split: if_splits)

lemma find_None_filter: "find P xs = None \<Longrightarrow> filter P xs = []"
  by (simp add: find_None_iff filter_empty_conv)

text \<open>
  C5. Let a be an administrator among the accounts whose clients include one linked to the
  signed-in account, d being the first such client document, and let no other
  administrator have such a client. Then the profile found is the pair of a and d, and the
  query on the clients of a is the last one issued: no account after it is looked at. When
  no administrator has such a client, the outcome is the message NotAssociated, with no
  profile set.
\<close>

theorem C5_association:
  "((a, u) \<in> set users \<and> role u = ''admin''
      \<and> find (\<lambda>(_, c). associatedUserUid c = Some userId) (clientsOf a) = Some d
      \<and> (\<forall>x \<in> set users. role (snd x) = ''admin'' \<and> fst x \<noteq> a \<longrightarrow>
            find (\<lambda>(_, c). associatedUserUid c = Some userId) (clientsOf (fst x)) = None)
     \<longrightarrow> fetchClientProfile users clientsOf userId = (NoMsg, Some (a, d))
        \<and> (\<exists>qs. snd (scanUsers clientsOf userId users) = qs @ [a] \<and> a \<notin> set qs))
   \<and> ((\<forall>x \<in> set users. role (snd x) = ''admin'' \<longrightarrow>
            find (\<lambda>(_, c). associatedUserUid c = Some userId) (clientsOf (fst x)) = None)
     \<longrightarrow> fetchClientProfile users clientsOf userId = (ErrorMsg NotAssociated, None))"
proof (intro conjI impI)
  assume h: "(a, u) \<in> set users \<and> role u = ''admin''
      \<and> find (\<lambda>(_, c). associatedUserUid c = Some userId) (clientsOf a) = Some d
      \<and> (\<forall>x \<in> set users. role (snd x) = ''admin'' \<and> fst x \<noteq> a \<longrightarrow>
            find (\<lambda>(_, c). associatedUserUid c = Some userId) (clientsOf (fst x)) = None)"
  then have "find (\<lambda>(_, c). associatedUserUid c = Some userId) (clientsOf a) = Some d"
    by simp
  from find_filter [OF this]
  obtain ds where ds: "filter (\<lambda>(_, c). associatedUserUid c = Some userId) (clientsOf a) = d # ds"
    by blast
  from h have others: "\<forall>x \<in> set users. role (snd x) = ''admin'' \<and> fst x \<noteq> a \<longrightarrow>
           filter (\<lambda>(_, c). associatedUserUid c = Some userId) (clientsOf (fst x)) = []"
    using find_None_filter by blast
  from h have mem: "(a, u) \<in> set users" and adm: "role u = ''admin''" by simp_all
  from scanUsers_found [OF mem adm ds others]
  show "fetchClientProfile users clientsOf userId = (NoMsg, Some (a, d))"
    and "\<exists>qs. snd (scanUsers clientsOf userId users) = qs @ [a] \<and> a \<notin> set qs"
    by (simp_all add: fetchClientProfile_def)
next
  assume "\<forall>x \<in> set users. role (snd x) = ''admin'' \<longrightarrow>
            find (\<lambda>(_, c). associatedUserUid c = Some userId) (clientsOf (fst x)) = None"
  then have "\<forall>x \<in> set users. role (snd x) = ''admin'' \<longrightarrow>
             filter (\<lambda>(_, c). associatedUserUid c = Some userId) (clientsOf (fst x)) = []"
    using find_None_filter by blast
  from scanUsers_none [OF this]
  show "fetchClientProfile users clientsOf userId = (ErrorMsg NotAssociated, None)"
    by (simp add: fetchClientProfile_def)
qed

text \<open>
  Witness: account u7 is linked to client a of administrator adm2 and to no client of adm1
  or adm3. The profile found is that of a under adm2, after queries on adm1 and adm2 only.
  No client is linked to account u8, for which the outcome is NotAssociated.
\<close>

theorem C5_association_witness:
  "(''adm2'', \<lparr>userEmail = ''two@example.org'', role = ''admin''\<rparr>) \<in> set usersA
   \<and> fetchClientProfile usersA clientsOfA ''u7''
       = (NoMsg, Some (''adm2'', ''a'',
            \<lparr>name = ''Ana'', phone = ''555'', email = ''ana@example.org'',
             associatedUserUid = Some ''u7'', currentModalityId = Some ''m1''\<rparr>))
   \<and> snd (scanUsers clientsOfA ''u7'' usersA) = [''adm1'', ''adm2'']
   \<and> fetchClientProfile usersA clientsOfA ''u8'' = (ErrorMsg NotAssociated, None)"
proof -
  let ?u = "\<lparr>userEmail = ''two@example.org'', role = ''admin''\<rparr>"
  let ?d = "(''a'', \<lparr>name = ''Ana'', phone = ''555'', email = ''ana@example.org'',
             associatedUserUid = Some ''u7'', currentModalityId = Some ''m1''\<rparr>)"
  have mem: "(''adm2'', ?u) \<in> set usersA" by (simp add: usersA_def)
  have adm: "role ?u = ''admin''" by simp
  have first: "find (\<lambda>(_, c). associatedUserUid c = Some ''u7'') (clientsOfA ''adm2'') = Some ?d"
    by (simp add: clientsOfA_def dbA_def)
  have others: "\<forall>x \<in> set usersA. role (snd x) = ''admin'' \<and> fst x \<noteq> ''adm2'' \<longrightarrow>
            find (\<lambda>(_, c). associatedUserUid c = Some ''u7'') (clientsOfA (fst x)) = None"
    by (simp add: usersA_def clientsOfA_def)
  have nobody: "\<forall>x \<in> set usersA. role (snd x) = ''admin'' \<longrightarrow>
            find (\<lambda>(_, c). associatedUserUid c = Some ''u8'') (clientsOfA (fst x)) = None"
    by (simp add: usersA_def clientsOfA_def dbA_def)
  from C5_association [of "''adm2''" ?u usersA "''u7''" clientsOfA ?d] mem adm first others
  have a: "fetchClientProfile usersA clientsOfA ''u7'' = (NoMsg, Some (''adm2'', ?d))"
    by blast
  from C5_association [of "''adm2''" ?u usersA "''u8''" clientsOfA ?d] nobody
  have b: "fetchClientProfile usersA clientsOfA ''u8'' = (ErrorMsg NotAssociated, None)"
    by blast
  have c: "snd (scanUsers clientsOfA ''u7'' usersA) = [''adm1'', ''adm2'']"
    by (simp add: usersA_def clientsOfA_def dbA_def Let_def)
  from mem a b c show ?thesis by simp
qed

section \<open>What the shift operations keep\<close>




lemma updateDoc_keeps_all:
  assumes "\<forall>s \<in> set col. Q (snd s)" and "\<And>v. Q v \<Longrightarrow> Q (f v)"
    and "updateDoc k f col = Some col'"
  shows "\<forall>s \<in> set col'. Q (snd s)"
proof
  fix s' assume s': "s' \<in> set col'"
  from assms(3) have "col' = map (\<lambda>(k', d). if k' = k then (k', f d) else (k', d)) col"
    by (simp add: updateDoc_def split: if_splits)
  with s' obtain s where s: "s \<in> set col"
    and eq: "s' = (case s of (k', d) \<Rightarrow> if k' = k then (k', f d) else (k', d))"
    by auto
  from s assms(1) have "Q (snd s)" by simp
  with assms(2) have "Q (f (snd s))" by simp
  with \<open>Q (snd s)\<close> eq show "Q (snd s')" by (simp add: case_prod_beta)
qed

















text \<open>A sequence without an update keeps the bookings.\<close>

lemma no_update_keeps: "\<not> isUpdate y \<Longrightarrow> keepsBookings y db"
  by (cases y) simp_all

lemma no_update_keepsBookings:
  "\<forall>x \<in> set ops. \<not> isUpdate x \<Longrightarrow> runKeepsBookings ops db"
  by (induction ops arbitrary: db) (simp_all add: no_update_keeps)



section \<open>Capacity and duplicates over sequences of operations\<close>









end
